theory Spec2Isabelle
  imports Main
begin

section \<open>The generated GraphQL result types\<close>

text \<open>
  The two generated files declare TypeScript interfaces and union aliases. A type
  expression of those files is a value of \<open>tsType\<close>: \<open>string\<close>, \<open>number\<close>, \<open>null\<close>, a string
  literal type, an array \<open>T[]\<close>, a union \<open>A | B\<close>, or an interface body (its properties in
  declaration order). A reference to a declared interface stands for its body.
\<close>

datatype tsType =
    TString
  | TNumber
  | TNull
  | TLit string
  | TArray tsType
  | TUnion "tsType list"
  | TInterface "(string \<times> tsType) list"

subsection \<open>LatestMaterializationMetadataFragment.ts\<close>

definition LatestMaterializationMetadataFragment_runOrError_RunNotFoundError :: tsType where
  "LatestMaterializationMetadataFragment_runOrError_RunNotFoundError = TInterface
     [(''__typename'', TUnion [TLit ''RunNotFoundError'', TLit ''PythonError''])]"

definition LatestMaterializationMetadataFragment_runOrError_Run_repositoryOrigin :: tsType where
  "LatestMaterializationMetadataFragment_runOrError_Run_repositoryOrigin = TInterface
     [(''__typename'', TLit ''RepositoryOrigin''),
      (''id'', TString),
      (''repositoryName'', TString),
      (''repositoryLocationName'', TString)]"

definition LatestMaterializationMetadataFragment_runOrError_Run :: tsType where
  "LatestMaterializationMetadataFragment_runOrError_Run = TInterface
     [(''__typename'', TLit ''Run''),
      (''id'', TString),
      (''runId'', TString),
      (''mode'', TString),
      (''pipelineName'', TString),
      (''pipelineSnapshotId'', TUnion [TString, TNull]),
      (''repositoryOrigin'',
         TUnion [LatestMaterializationMetadataFragment_runOrError_Run_repositoryOrigin, TNull])]"

definition LatestMaterializationMetadataFragment_runOrError :: tsType where
  "LatestMaterializationMetadataFragment_runOrError = TUnion
     [LatestMaterializationMetadataFragment_runOrError_RunNotFoundError,
      LatestMaterializationMetadataFragment_runOrError_Run]"

definition LatestMaterializationMetadataFragment_stepStats :: tsType where
  "LatestMaterializationMetadataFragment_stepStats = TInterface
     [(''__typename'', TLit ''RunStepStats''),
      (''endTime'', TUnion [TNumber, TNull]),
      (''startTime'', TUnion [TNumber, TNull])]"

definition LatestMaterializationMetadataFragment_metadataEntries_EventTableSchemaMetadataEntry :: tsType where
  "LatestMaterializationMetadataFragment_metadataEntries_EventTableSchemaMetadataEntry = TInterface
     [(''__typename'', TUnion [TLit ''EventTableSchemaMetadataEntry'', TLit ''EventTableMetadataEntry'']),
      (''label'', TString),
      (''description'', TUnion [TString, TNull])]"

definition LatestMaterializationMetadataFragment_metadataEntries_EventPathMetadataEntry :: tsType where
  "LatestMaterializationMetadataFragment_metadataEntries_EventPathMetadataEntry = TInterface
     [(''__typename'', TLit ''EventPathMetadataEntry''),
      (''label'', TString),
      (''description'', TUnion [TString, TNull]),
      (''path'', TString)]"

definition LatestMaterializationMetadataFragment_metadataEntries_EventJsonMetadataEntry :: tsType where
  "LatestMaterializationMetadataFragment_metadataEntries_EventJsonMetadataEntry = TInterface
     [(''__typename'', TLit ''EventJsonMetadataEntry''),
      (''label'', TString),
      (''description'', TUnion [TString, TNull]),
      (''jsonString'', TString)]"

definition LatestMaterializationMetadataFragment_metadataEntries_EventUrlMetadataEntry :: tsType where
  "LatestMaterializationMetadataFragment_metadataEntries_EventUrlMetadataEntry = TInterface
     [(''__typename'', TLit ''EventUrlMetadataEntry''),
      (''label'', TString),
      (''description'', TUnion [TString, TNull]),
      (''url'', TString)]"

definition LatestMaterializationMetadataFragment_metadataEntries_EventTextMetadataEntry :: tsType where
  "LatestMaterializationMetadataFragment_metadataEntries_EventTextMetadataEntry = TInterface
     [(''__typename'', TLit ''EventTextMetadataEntry''),
      (''label'', TString),
      (''description'', TUnion [TString, TNull]),
      (''text'', TString)]"

definition LatestMaterializationMetadataFragment_metadataEntries_EventMarkdownMetadataEntry :: tsType where
  "LatestMaterializationMetadataFragment_metadataEntries_EventMarkdownMetadataEntry = TInterface
     [(''__typename'', TLit ''EventMarkdownMetadataEntry''),
      (''label'', TString),
      (''description'', TUnion [TString, TNull]),
      (''mdStr'', TString)]"

definition LatestMaterializationMetadataFragment_metadataEntries_EventPythonArtifactMetadataEntry :: tsType where
  "LatestMaterializationMetadataFragment_metadataEntries_EventPythonArtifactMetadataEntry = TInterface
     [(''__typename'', TLit ''EventPythonArtifactMetadataEntry''),
      (''label'', TString),
      (''description'', TUnion [TString, TNull]),
      (''module'', TString),
      (''name'', TString)]"

definition LatestMaterializationMetadataFragment_metadataEntries_EventFloatMetadataEntry :: tsType where
  "LatestMaterializationMetadataFragment_metadataEntries_EventFloatMetadataEntry = TInterface
     [(''__typename'', TLit ''EventFloatMetadataEntry''),
      (''label'', TString),
      (''description'', TUnion [TString, TNull]),
      (''floatValue'', TUnion [TNumber, TNull])]"

definition LatestMaterializationMetadataFragment_metadataEntries_EventIntMetadataEntry :: tsType where
  "LatestMaterializationMetadataFragment_metadataEntries_EventIntMetadataEntry = TInterface
     [(''__typename'', TLit ''EventIntMetadataEntry''),
      (''label'', TString),
      (''description'', TUnion [TString, TNull]),
      (''intValue'', TUnion [TNumber, TNull]),
      (''intRepr'', TString)]"

definition LatestMaterializationMetadataFragment_metadataEntries_EventPipelineRunMetadataEntry :: tsType where
  "LatestMaterializationMetadataFragment_metadataEntries_EventPipelineRunMetadataEntry = TInterface
     [(''__typename'', TLit ''EventPipelineRunMetadataEntry''),
      (''label'', TString),
      (''description'', TUnion [TString, TNull]),
      (''runId'', TString)]"

definition LatestMaterializationMetadataFragment_metadataEntries_EventAssetMetadataEntry_assetKey :: tsType where
  "LatestMaterializationMetadataFragment_metadataEntries_EventAssetMetadataEntry_assetKey = TInterface
     [(''__typename'', TLit ''AssetKey''),
      (''path'', TArray TString)]"

definition LatestMaterializationMetadataFragment_metadataEntries_EventAssetMetadataEntry :: tsType where
  "LatestMaterializationMetadataFragment_metadataEntries_EventAssetMetadataEntry = TInterface
     [(''__typename'', TLit ''EventAssetMetadataEntry''),
      (''label'', TString),
      (''description'', TUnion [TString, TNull]),
      (''assetKey'', LatestMaterializationMetadataFragment_metadataEntries_EventAssetMetadataEntry_assetKey)]"

definition LatestMaterializationMetadataFragment_metadataEntries :: tsType where
  "LatestMaterializationMetadataFragment_metadataEntries = TUnion
     [LatestMaterializationMetadataFragment_metadataEntries_EventTableSchemaMetadataEntry,
      LatestMaterializationMetadataFragment_metadataEntries_EventPathMetadataEntry,
      LatestMaterializationMetadataFragment_metadataEntries_EventJsonMetadataEntry,
      LatestMaterializationMetadataFragment_metadataEntries_EventUrlMetadataEntry,
      LatestMaterializationMetadataFragment_metadataEntries_EventTextMetadataEntry,
      LatestMaterializationMetadataFragment_metadataEntries_EventMarkdownMetadataEntry,
      LatestMaterializationMetadataFragment_metadataEntries_EventPythonArtifactMetadataEntry,
      LatestMaterializationMetadataFragment_metadataEntries_EventFloatMetadataEntry,
      LatestMaterializationMetadataFragment_metadataEntries_EventIntMetadataEntry,
      LatestMaterializationMetadataFragment_metadataEntries_EventPipelineRunMetadataEntry,
      LatestMaterializationMetadataFragment_metadataEntries_EventAssetMetadataEntry]"

definition LatestMaterializationMetadataFragment_assetLineage_assetKey :: tsType where
  "LatestMaterializationMetadataFragment_assetLineage_assetKey = TInterface
     [(''__typename'', TLit ''AssetKey''),
      (''path'', TArray TString)]"

definition LatestMaterializationMetadataFragment_assetLineage :: tsType where
  "LatestMaterializationMetadataFragment_assetLineage = TInterface
     [(''__typename'', TLit ''AssetLineageInfo''),
      (''assetKey'', LatestMaterializationMetadataFragment_assetLineage_assetKey),
      (''partitions'', TArray TString)]"

definition LatestMaterializationMetadataFragment :: tsType where
  "LatestMaterializationMetadataFragment = TInterface
     [(''__typename'', TLit ''MaterializationEvent''),
      (''partition'', TUnion [TString, TNull]),
      (''runOrError'', LatestMaterializationMetadataFragment_runOrError),
      (''runId'', TString),
      (''timestamp'', TString),
      (''stepKey'', TUnion [TString, TNull]),
      (''stepStats'', LatestMaterializationMetadataFragment_stepStats),
      (''metadataEntries'', TArray LatestMaterializationMetadataFragment_metadataEntries),
      (''assetLineage'', TArray LatestMaterializationMetadataFragment_assetLineage)]"

subsection \<open>AssetGraphQuery.ts\<close>

definition AssetGraphQuery_assetNodes_assetKey :: tsType where
  "AssetGraphQuery_assetNodes_assetKey = TInterface
     [(''__typename'', TLit ''AssetKey''),
      (''path'', TArray TString)]"

definition AssetGraphQuery_assetNodes_dependencyKeys :: tsType where
  "AssetGraphQuery_assetNodes_dependencyKeys = TInterface
     [(''__typename'', TLit ''AssetKey''),
      (''path'', TArray TString)]"

definition AssetGraphQuery_assetNodes_dependedByKeys :: tsType where
  "AssetGraphQuery_assetNodes_dependedByKeys = TInterface
     [(''__typename'', TLit ''AssetKey''),
      (''path'', TArray TString)]"

definition AssetGraphQuery_assetNodes :: tsType where
  "AssetGraphQuery_assetNodes = TInterface
     [(''__typename'', TLit ''AssetNode''),
      (''id'', TString),
      (''opName'', TUnion [TString, TNull]),
      (''description'', TUnion [TString, TNull]),
      (''partitionDefinition'', TUnion [TString, TNull]),
      (''assetKey'', AssetGraphQuery_assetNodes_assetKey),
      (''dependencyKeys'', TArray AssetGraphQuery_assetNodes_dependencyKeys),
      (''dependedByKeys'', TArray AssetGraphQuery_assetNodes_dependedByKeys)]"

definition AssetGraphQuery :: tsType where
  "AssetGraphQuery = TInterface
     [(''assetNodes'', TArray AssetGraphQuery_assetNodes)]"

text \<open>
  \<open>PipelineSelector\<close> is imported from \<open>types/globalTypes\<close>, which is not among the two
  files; the declaration that uses it takes it as a parameter.
\<close>

definition AssetGraphQueryVariables :: "tsType \<Rightarrow> tsType" where
  "AssetGraphQueryVariables PipelineSelector = TInterface
     [(''pipelineSelector'', PipelineSelector)]"

subsection \<open>Reading a declaration\<close>

text \<open>
  The alternatives of a type (a non-union type is its own single alternative), the
  properties of an interface, the string literals a type admits, and the discriminator
  values of an interface: the literals of its \<open>__typename\<close> property.
\<close>

fun members :: "tsType \<Rightarrow> tsType list" where
  "members (TUnion ts) = ts"
| "members t = [t]"

fun fields :: "tsType \<Rightarrow> (string \<times> tsType) list" where
  "fields (TInterface fs) = fs"
| "fields t = []"

fun literals :: "tsType \<Rightarrow> string list" where
  "literals (TLit s) = [s]"
| "literals (TUnion ts) = concat (map literals ts)"
| "literals t = []"

definition fieldNames :: "tsType \<Rightarrow> string list" where
  "fieldNames t = map fst (fields t)"

definition fieldType :: "tsType \<Rightarrow> string \<Rightarrow> tsType option" where
  "fieldType t f = map_of (fields t) f"

definition typenames :: "tsType \<Rightarrow> string list" where
  "typenames t = (case fieldType t ''__typename'' of None \<Rightarrow> [] | Some ty \<Rightarrow> literals ty)"

text \<open>The union aliases the two files export, in declaration order.\<close>

definition generated_unions :: "tsType list" where
  "generated_unions =
     [LatestMaterializationMetadataFragment_runOrError,
      LatestMaterializationMetadataFragment_metadataEntries]"

text \<open>
  The reading of "one variant per discriminator value": no variant of the union admits
  more than one \<open>__typename\<close> literal.
\<close>

definition one_typename_per_variant :: "tsType \<Rightarrow> bool" where
  "one_typename_per_variant u = list_all (\<lambda>v. length (typenames v) \<le> 1) (members u)"

text \<open>
  What the generator does keep: every variant has a discriminator value and no value is
  shared by two variants, so a \<open>__typename\<close> selects one variant of the union.
\<close>

definition discriminated :: "tsType \<Rightarrow> bool" where
  "discriminated u =
     (list_all (\<lambda>v. typenames v \<noteq> []) (members u)
      \<and> distinct (concat (map typenames (members u))))"

text \<open>The variants of a union that stand for more than one discriminator value.\<close>

definition shared_variants :: "tsType \<Rightarrow> tsType list" where
  "shared_variants u = filter (\<lambda>v. 1 < length (typenames v)) (members u)"

subsection \<open>Response values\<close>

text \<open>
  A response is JSON data. The representation of a JSON number is left open (the type
  parameter \<open>'n\<close>). An object has a type by its shape: each declared property is present
  with a value of its type, and further properties do not matter.
\<close>

datatype 'n jsValue =
    VString string
  | VNumber 'n
  | VNull
  | VArray "'n jsValue list"
  | VObject "(string \<times> 'n jsValue) list"

fun hasType :: "'n jsValue \<Rightarrow> tsType \<Rightarrow> bool" where
  "hasType v TString = (case v of VString _ \<Rightarrow> True | _ \<Rightarrow> False)"
| "hasType v TNumber = (case v of VNumber _ \<Rightarrow> True | _ \<Rightarrow> False)"
| "hasType v TNull = (v = VNull)"
| "hasType v (TLit s) = (v = VString s)"
| "hasType v (TArray t) = (case v of VArray vs \<Rightarrow> list_all (\<lambda>x. hasType x t) vs | _ \<Rightarrow> False)"
| "hasType v (TUnion ts) = list_ex (\<lambda>t. hasType v t) ts"
| "hasType v (TInterface fs) =
     (case v of
        VObject kvs \<Rightarrow>
          list_all (\<lambda>(f, t). case map_of kvs f of Some x \<Rightarrow> hasType x t | None \<Rightarrow> False) fs
      | _ \<Rightarrow> False)"

definition property :: "'n jsValue \<Rightarrow> string \<Rightarrow> 'n jsValue option" where
  "property v f = (case v of VObject kvs \<Rightarrow> map_of kvs f | _ \<Rightarrow> None)"

definition run_details :: "string list" where
  "run_details = [''id'', ''runId'', ''mode'', ''pipelineName'', ''pipelineSnapshotId'', ''repositoryOrigin'']"

section \<open>The presentational components\<close>

text \<open>
  What a component returns: an element with its tag, its \<open>className\<close> and its children,
  or a text node.
\<close>

datatype jsx =
    Element string string "jsx list"
  | Text string

text \<open>
  \<open>getColorForString\<close> is imported from \<open>util/getColorForString\<close>, which is not among the
  source files; \<open>Badge\<close> takes it as a parameter. The template literal appends its result
  to the fixed class list.
\<close>

definition Badge :: "(string \<Rightarrow> string) \<Rightarrow> string \<Rightarrow> jsx" where
  "Badge getColorForString text =
     (let colors = getColorForString text
      in Element ''span''
           (''inline-flex items-center px-2.5 py-0.5 rounded-md text-sm font-medium '' @ colors)
           [Text text])"

definition Experimental :: jsx where
  "Experimental =
     Element ''div'' ''experimental-tag''
       [Element ''span'' ''hidden'' [Text ''(''],
        Text ''Experimental'',
        Element ''span'' ''hidden'' [Text '')'']]"

definition Deprecated :: jsx where
  "Deprecated =
     Element ''div'' ''deprecated-tag''
       [Element ''span'' ''hidden'' [Text ''(''],
        Text ''Deprecated'',
        Element ''span'' ''hidden'' [Text '')'']]"

definition Legacy :: jsx where
  "Legacy =
     Element ''div'' ''legacy-tag''
       [Element ''span'' ''hidden'' [Text ''(''],
        Text ''Legacy'',
        Element ''span'' ''hidden'' [Text '')'']]"

subsection \<open>Reading a rendered element\<close>

fun className :: "jsx \<Rightarrow> string" where
  "className (Element tag cls kids) = cls"
| "className (Text t) = []"

fun children :: "jsx \<Rightarrow> jsx list" where
  "children (Element tag cls kids) = kids"
| "children (Text t) = []"

text \<open>All the text below a node, and the text outside the elements of class \<open>hidden\<close>.\<close>

fun textContent :: "jsx \<Rightarrow> string" where
  "textContent (Text t) = t"
| "textContent (Element tag cls kids) = concat (map textContent kids)"

fun visibleText :: "jsx \<Rightarrow> string" where
  "visibleText (Text t) = t"
| "visibleText (Element tag cls kids) =
     (if cls = ''hidden'' then [] else concat (map visibleText kids))"

text \<open>The class a marker is keyed by: its name in lower case, followed by \<open>-tag\<close>.\<close>

definition lower :: "char \<Rightarrow> char" where
  "lower c =
     (if 65 \<le> (of_char c :: nat) \<and> (of_char c :: nat) \<le> 90
      then char_of ((of_char c :: nat) + 32) else c)"

definition tag_class :: "string \<Rightarrow> string" where
  "tag_class name = map lower name @ ''-tag''"

section \<open>The colour selector\<close>

datatype selector_error = DivisionByZero | IndexOutOfRange

text \<open>
  Modelled from the spec: the index selection of \<open>getColorForString\<close> (\<open>selectStyle\<close> in
  the spec), whose file \<open>util/getColorForString\<close> is not among the source files. Section
  4.1 reduces a numeric digest of the string modulo the palette length \<open>N\<close>; the digest
  itself is not given and stays a parameter. A reduction modulo 0 is the failure that
  section 7 speaks of.
\<close>

definition selectIndex :: "(string \<Rightarrow> nat) \<Rightarrow> nat \<Rightarrow> string \<Rightarrow> selector_error + nat" where
  "selectIndex dg N s = (if N = 0 then Inl DivisionByZero else Inr (dg s mod N))"

text \<open>
  Modelled from the spec: \<open>selectStyle\<close> (section 4.1), the palette entry at the selected
  index. The palette is the fixed ordered sequence of section 3; a read outside it is
  written out as a failure.
\<close>

definition selectStyle :: "(string \<Rightarrow> nat) \<Rightarrow> 'style list \<Rightarrow> string \<Rightarrow> selector_error + 'style" where
  "selectStyle dg palette s =
     (case selectIndex dg (length palette) s of
        Inl e \<Rightarrow> Inl e
      | Inr i \<Rightarrow> if i < length palette then Inr (palette ! i) else Inl IndexOutOfRange)"

section \<open>Properties of the generated types\<close>

lemmas runOrError_defs =
  LatestMaterializationMetadataFragment_runOrError_def
  LatestMaterializationMetadataFragment_runOrError_RunNotFoundError_def
  LatestMaterializationMetadataFragment_runOrError_Run_def
  LatestMaterializationMetadataFragment_runOrError_Run_repositoryOrigin_def

lemmas metadataEntries_defs =
  LatestMaterializationMetadataFragment_metadataEntries_def
  LatestMaterializationMetadataFragment_metadataEntries_EventTableSchemaMetadataEntry_def
  LatestMaterializationMetadataFragment_metadataEntries_EventPathMetadataEntry_def
  LatestMaterializationMetadataFragment_metadataEntries_EventJsonMetadataEntry_def
  LatestMaterializationMetadataFragment_metadataEntries_EventUrlMetadataEntry_def
  LatestMaterializationMetadataFragment_metadataEntries_EventTextMetadataEntry_def
  LatestMaterializationMetadataFragment_metadataEntries_EventMarkdownMetadataEntry_def
  LatestMaterializationMetadataFragment_metadataEntries_EventPythonArtifactMetadataEntry_def
  LatestMaterializationMetadataFragment_metadataEntries_EventFloatMetadataEntry_def
  LatestMaterializationMetadataFragment_metadataEntries_EventIntMetadataEntry_def
  LatestMaterializationMetadataFragment_metadataEntries_EventPipelineRunMetadataEntry_def
  LatestMaterializationMetadataFragment_metadataEntries_EventAssetMetadataEntry_def
  LatestMaterializationMetadataFragment_metadataEntries_EventAssetMetadataEntry_assetKey_def

subsection \<open>Discriminator values of the two unions\<close>

lemma typenames_runOrError:
  "map typenames (members LatestMaterializationMetadataFragment_runOrError) =
     [[''RunNotFoundError'', ''PythonError''], [''Run'']]"
  by (simp add: runOrError_defs typenames_def fieldType_def)

lemma typenames_metadataEntries:
  "map typenames (members LatestMaterializationMetadataFragment_metadataEntries) =
     [[''EventTableSchemaMetadataEntry'', ''EventTableMetadataEntry''],
      [''EventPathMetadataEntry''],
      [''EventJsonMetadataEntry''],
      [''EventUrlMetadataEntry''],
      [''EventTextMetadataEntry''],
      [''EventMarkdownMetadataEntry''],
      [''EventPythonArtifactMetadataEntry''],
      [''EventFloatMetadataEntry''],
      [''EventIntMetadataEntry''],
      [''EventPipelineRunMetadataEntry''],
      [''EventAssetMetadataEntry'']]"
  by (simp add: metadataEntries_defs typenames_def fieldType_def)

lemma discriminated_iff:
  "discriminated u \<longleftrightarrow>
     list_all (\<lambda>ns. ns \<noteq> []) (map typenames (members u))
     \<and> distinct (concat (map typenames (members u)))"
  by (simp add: discriminated_def list_all_iff)

lemma discriminated_runOrError:
  "discriminated LatestMaterializationMetadataFragment_runOrError"
  unfolding discriminated_iff typenames_runOrError by simp

lemma discriminated_metadataEntries:
  "discriminated LatestMaterializationMetadataFragment_metadataEntries"
  unfolding discriminated_iff typenames_metadataEntries by simp

lemma shared_variants_runOrError:
  "shared_variants LatestMaterializationMetadataFragment_runOrError =
     [LatestMaterializationMetadataFragment_runOrError_RunNotFoundError]"
  by (simp add: shared_variants_def runOrError_defs typenames_def fieldType_def)

lemma shared_variants_metadataEntries:
  "shared_variants LatestMaterializationMetadataFragment_metadataEntries =
     [LatestMaterializationMetadataFragment_metadataEntries_EventTableSchemaMetadataEntry]"
  by (simp add: shared_variants_def metadataEntries_defs typenames_def fieldType_def)

text \<open>
  C4, as stated, fails: in the union \<open>LatestMaterializationMetadataFragment_runOrError\<close>
  the variant interface \<open>..._runOrError_RunNotFoundError\<close> stands for the two discriminator
  values \<open>RunNotFoundError\<close> and \<open>PythonError\<close>, so it is not true that no variant covers
  more than one value.
\<close>

theorem one_typename_per_variant_counterexample:
  "\<not> one_typename_per_variant LatestMaterializationMetadataFragment_runOrError"
  by (simp add: one_typename_per_variant_def runOrError_defs typenames_def fieldType_def)

text \<open>
  C4, amended: each generated union is discriminated by \<open>__typename\<close>: every variant
  interface has at least one discriminator value and no value belongs to two variants of
  the same union. A variant may stand for several values whose selected fields are the
  same: \<open>..._runOrError_RunNotFoundError\<close> stands for \<open>RunNotFoundError\<close> and
  \<open>PythonError\<close>, \<open>..._metadataEntries_EventTableSchemaMetadataEntry\<close> for
  \<open>EventTableSchemaMetadataEntry\<close> and \<open>EventTableMetadataEntry\<close>; these two are the only
  such variants.
\<close>

theorem generated_unions_discriminated:
  "list_all discriminated generated_unions
   \<and> shared_variants LatestMaterializationMetadataFragment_runOrError =
        [LatestMaterializationMetadataFragment_runOrError_RunNotFoundError]
   \<and> typenames LatestMaterializationMetadataFragment_runOrError_RunNotFoundError =
        [''RunNotFoundError'', ''PythonError'']
   \<and> shared_variants LatestMaterializationMetadataFragment_metadataEntries =
        [LatestMaterializationMetadataFragment_metadataEntries_EventTableSchemaMetadataEntry]
   \<and> typenames LatestMaterializationMetadataFragment_metadataEntries_EventTableSchemaMetadataEntry =
        [''EventTableSchemaMetadataEntry'', ''EventTableMetadataEntry'']"
proof (intro conjI)
  show "list_all discriminated generated_unions"
    by (simp add: generated_unions_def discriminated_runOrError discriminated_metadataEntries)
  show "typenames LatestMaterializationMetadataFragment_runOrError_RunNotFoundError =
        [''RunNotFoundError'', ''PythonError'']"
    by (simp add: typenames_def fieldType_def runOrError_defs)
  show "typenames LatestMaterializationMetadataFragment_metadataEntries_EventTableSchemaMetadataEntry =
        [''EventTableSchemaMetadataEntry'', ''EventTableMetadataEntry'']"
    by (simp add: typenames_def fieldType_def metadataEntries_defs)
qed (rule shared_variants_runOrError shared_variants_metadataEntries)+

subsection \<open>Values of a union type\<close>

lemma hasType_field:
  assumes "hasType v t" and "fieldType t f = Some ft"
  shows "\<exists>x. property v f = Some x \<and> hasType x ft"
proof (cases t)
  case (TInterface fs)
  from assms(2) TInterface have mem: "(f, ft) \<in> set fs"
    by (simp add: fieldType_def map_of_SomeD)
  from assms(1) TInterface obtain kvs where v: "v = VObject kvs"
    by (cases v) simp_all
  from assms(1) TInterface v mem
  have "case map_of kvs f of Some x \<Rightarrow> hasType x ft | None \<Rightarrow> False"
    by (auto simp: list_all_iff)
  then show ?thesis
    by (simp add: property_def v split: option.splits)
qed (use assms(2) in \<open>simp_all add: fieldType_def\<close>)

lemma hasType_member:
  assumes "hasType v u"
  shows "\<exists>m \<in> set (members u). hasType v m"
  using assms by (cases u) (auto simp: list_ex_iff)

lemma hasType_common_field:
  assumes "hasType v u" and "list_all (\<lambda>m. fieldType m f = Some ft) (members u)"
  shows "\<exists>x. property v f = Some x \<and> hasType x ft"
proof -
  from assms(1) obtain m where "m \<in> set (members u)" and "hasType v m"
    using hasType_member by blast
  moreover from this assms(2) have "fieldType m f = Some ft"
    by (simp add: list_all_iff)
  ultimately show ?thesis
    using hasType_field by blast
qed

lemma hasType_string: "hasType x TString \<Longrightarrow> \<exists>s. x = VString s"
  by (cases x) simp_all

lemma hasType_nullable_string:
  "hasType x (TUnion [TString, TNull]) \<Longrightarrow> x = VNull \<or> (\<exists>s. x = VString s)"
  by (cases x) simp_all

lemma metadataEntries_fields:
  "list_all (\<lambda>m. fieldType m ''label'' = Some TString)
     (members LatestMaterializationMetadataFragment_metadataEntries)"
  "list_all (\<lambda>m. fieldType m ''description'' = Some (TUnion [TString, TNull]))
     (members LatestMaterializationMetadataFragment_metadataEntries)"
  by (simp_all add: metadataEntries_defs fieldType_def)

text \<open>
  C9: every variant of \<open>LatestMaterializationMetadataFragment_metadataEntries\<close> declares
  \<open>label: string\<close> and \<open>description: string | null\<close>; hence every value of the union has a
  string \<open>label\<close> and a \<open>description\<close> that is a string or null, whatever its \<open>__typename\<close>.
\<close>

theorem metadataEntries_label_description:
  "list_all (\<lambda>m. fieldType m ''label'' = Some TString
                \<and> fieldType m ''description'' = Some (TUnion [TString, TNull]))
     (members LatestMaterializationMetadataFragment_metadataEntries)
   \<and> (\<forall>x :: 'n jsValue. hasType x LatestMaterializationMetadataFragment_metadataEntries \<longrightarrow>
        (\<exists>l. property x ''label'' = Some (VString l))
        \<and> (property x ''description'' = Some VNull
           \<or> (\<exists>d. property x ''description'' = Some (VString d))))"
proof (intro conjI allI impI)
  show "list_all (\<lambda>m. fieldType m ''label'' = Some TString
                \<and> fieldType m ''description'' = Some (TUnion [TString, TNull]))
     (members LatestMaterializationMetadataFragment_metadataEntries)"
    using metadataEntries_fields by (simp add: list_all_iff)
next
  fix x :: "'n jsValue"
  assume x: "hasType x LatestMaterializationMetadataFragment_metadataEntries"
  from hasType_common_field [OF x metadataEntries_fields(1)]
  show "\<exists>l. property x ''label'' = Some (VString l)"
    using hasType_string by blast
  from hasType_common_field [OF x metadataEntries_fields(2)]
  show "property x ''description'' = Some VNull
           \<or> (\<exists>d. property x ''description'' = Some (VString d))"
    using hasType_nullable_string by blast
qed

text \<open>
  C9, at a value: an \<open>EventIntMetadataEntry\<close> object with label \<open>rows\<close> and no description
  is a value of the union, and both properties are read from it directly.
\<close>

theorem metadataEntries_label_description_witness:
  "hasType (VObject [(''__typename'', VString ''EventIntMetadataEntry''),
                     (''label'', VString ''rows''),
                     (''description'', VNull),
                     (''intValue'', VNumber (12::int)),
                     (''intRepr'', VString ''12'')])
      LatestMaterializationMetadataFragment_metadataEntries
   \<and> property (VObject [(''__typename'', VString ''EventIntMetadataEntry''),
                     (''label'', VString ''rows''),
                     (''description'', VNull),
                     (''intValue'', VNumber (12::int)),
                     (''intRepr'', VString ''12'')]) ''label'' = Some (VString ''rows'')
   \<and> property (VObject [(''__typename'', VString ''EventIntMetadataEntry''),
                     (''label'', VString ''rows''),
                     (''description'', VNull),
                     (''intValue'', VNumber (12::int)),
                     (''intRepr'', VString ''12'')]) ''description'' = Some VNull"
  using metadataEntries_label_description [where 'n = int]
  by (simp add: metadataEntries_defs property_def)

lemma runOrError_typename_Run:
  assumes "hasType x LatestMaterializationMetadataFragment_runOrError"
    and "property x ''__typename'' = Some (VString ''Run'')"
  shows "hasType x LatestMaterializationMetadataFragment_runOrError_Run"
proof -
  from assms(1)
  have "hasType x LatestMaterializationMetadataFragment_runOrError_RunNotFoundError
      \<or> hasType x LatestMaterializationMetadataFragment_runOrError_Run"
    by (simp add: LatestMaterializationMetadataFragment_runOrError_def)
  moreover have "\<not> hasType x LatestMaterializationMetadataFragment_runOrError_RunNotFoundError"
  proof
    assume "hasType x LatestMaterializationMetadataFragment_runOrError_RunNotFoundError"
    moreover
    have "fieldType LatestMaterializationMetadataFragment_runOrError_RunNotFoundError ''__typename''
        = Some (TUnion [TLit ''RunNotFoundError'', TLit ''PythonError''])"
      by (simp add: fieldType_def LatestMaterializationMetadataFragment_runOrError_RunNotFoundError_def)
    ultimately obtain y where "property x ''__typename'' = Some y"
      and "hasType y (TUnion [TLit ''RunNotFoundError'', TLit ''PythonError''])"
      using hasType_field by blast
    with assms(2) show False by simp
  qed
  ultimately show ?thesis by simp
qed

lemma Run_fieldTypes:
  "fieldType LatestMaterializationMetadataFragment_runOrError_Run ''id'' = Some TString"
  "fieldType LatestMaterializationMetadataFragment_runOrError_Run ''runId'' = Some TString"
  "fieldType LatestMaterializationMetadataFragment_runOrError_Run ''mode'' = Some TString"
  "fieldType LatestMaterializationMetadataFragment_runOrError_Run ''pipelineName'' = Some TString"
  "fieldType LatestMaterializationMetadataFragment_runOrError_Run ''pipelineSnapshotId''
     = Some (TUnion [TString, TNull])"
  "fieldType LatestMaterializationMetadataFragment_runOrError_Run ''repositoryOrigin''
     = Some (TUnion [LatestMaterializationMetadataFragment_runOrError_Run_repositoryOrigin, TNull])"
  by (simp_all add: fieldType_def LatestMaterializationMetadataFragment_runOrError_Run_def)

lemma hasType_nullable:
  "hasType x (TUnion [t, TNull]) \<Longrightarrow> x = VNull \<or> hasType x t"
  by auto

lemma runOrError_typename:
  assumes "hasType x LatestMaterializationMetadataFragment_runOrError"
  shows "property x ''__typename'' = Some (VString ''Run'')
       \<or> property x ''__typename'' = Some (VString ''RunNotFoundError'')
       \<or> property x ''__typename'' = Some (VString ''PythonError'')"
proof -
  from assms
  have "hasType x LatestMaterializationMetadataFragment_runOrError_RunNotFoundError
      \<or> hasType x LatestMaterializationMetadataFragment_runOrError_Run"
    by (simp add: LatestMaterializationMetadataFragment_runOrError_def)
  then show ?thesis
  proof
    assume "hasType x LatestMaterializationMetadataFragment_runOrError_RunNotFoundError"
    moreover
    have "fieldType LatestMaterializationMetadataFragment_runOrError_RunNotFoundError ''__typename''
        = Some (TUnion [TLit ''RunNotFoundError'', TLit ''PythonError''])"
      by (simp add: fieldType_def LatestMaterializationMetadataFragment_runOrError_RunNotFoundError_def)
    ultimately obtain y where "property x ''__typename'' = Some y"
      and "hasType y (TUnion [TLit ''RunNotFoundError'', TLit ''PythonError''])"
      using hasType_field by blast
    then show ?thesis by auto
  next
    assume "hasType x LatestMaterializationMetadataFragment_runOrError_Run"
    moreover
    have "fieldType LatestMaterializationMetadataFragment_runOrError_Run ''__typename''
        = Some (TLit ''Run'')"
      by (simp add: fieldType_def LatestMaterializationMetadataFragment_runOrError_Run_def)
    ultimately obtain y where "property x ''__typename'' = Some y" and "hasType y (TLit ''Run'')"
      using hasType_field by blast
    then show ?thesis by simp
  qed
qed

lemma Run_details_available:
  fixes x :: "'n jsValue"
  assumes "hasType x LatestMaterializationMetadataFragment_runOrError_Run"
  shows "(\<exists>a. property x ''id'' = Some (VString a))
       \<and> (\<exists>a. property x ''runId'' = Some (VString a))
       \<and> (\<exists>a. property x ''mode'' = Some (VString a))
       \<and> (\<exists>a. property x ''pipelineName'' = Some (VString a))
       \<and> (property x ''pipelineSnapshotId'' = Some VNull
          \<or> (\<exists>a. property x ''pipelineSnapshotId'' = Some (VString a)))
       \<and> (property x ''repositoryOrigin'' = Some VNull
          \<or> (\<exists>r. property x ''repositoryOrigin'' = Some r
                \<and> hasType r LatestMaterializationMetadataFragment_runOrError_Run_repositoryOrigin))"
proof (intro conjI)
  show "\<exists>a. property x ''id'' = Some (VString a)"
    using hasType_field [OF assms Run_fieldTypes(1)] hasType_string by blast
  show "\<exists>a. property x ''runId'' = Some (VString a)"
    using hasType_field [OF assms Run_fieldTypes(2)] hasType_string by blast
  show "\<exists>a. property x ''mode'' = Some (VString a)"
    using hasType_field [OF assms Run_fieldTypes(3)] hasType_string by blast
  show "\<exists>a. property x ''pipelineName'' = Some (VString a)"
    using hasType_field [OF assms Run_fieldTypes(4)] hasType_string by blast
  show "property x ''pipelineSnapshotId'' = Some VNull
          \<or> (\<exists>a. property x ''pipelineSnapshotId'' = Some (VString a))"
    using hasType_field [OF assms Run_fieldTypes(5)] hasType_nullable_string by blast
  show "property x ''repositoryOrigin'' = Some VNull
          \<or> (\<exists>r. property x ''repositoryOrigin'' = Some r
                \<and> hasType r LatestMaterializationMetadataFragment_runOrError_Run_repositoryOrigin)"
    using hasType_field [OF assms Run_fieldTypes(6)] hasType_nullable by blast
qed

text \<open>
  C10: \<open>LatestMaterializationMetadataFragment_runOrError\<close> has two variants. The one for
  \<open>RunNotFoundError\<close> and \<open>PythonError\<close> declares the \<open>__typename\<close> tag and nothing else;
  the one for \<open>Run\<close> declares the tag and the six run details \<open>id\<close>, \<open>runId\<close>, \<open>mode\<close>,
  \<open>pipelineName\<close>, \<open>pipelineSnapshotId\<close> and \<open>repositoryOrigin\<close>. So a detail is declared for
  a discriminator value exactly when that value is \<open>Run\<close>. For values: every value of the
  union is tagged \<open>Run\<close>, \<open>RunNotFoundError\<close> or \<open>PythonError\<close>; one tagged \<open>Run\<close> carries all
  six details with their declared types; and the object that holds only the tag
  \<open>PythonError\<close> is a value of the union that carries none of them.
\<close>

theorem runOrError_details_iff_Run:
  "members LatestMaterializationMetadataFragment_runOrError =
      [LatestMaterializationMetadataFragment_runOrError_RunNotFoundError,
       LatestMaterializationMetadataFragment_runOrError_Run]
   \<and> fieldNames LatestMaterializationMetadataFragment_runOrError_RunNotFoundError = [''__typename'']
   \<and> typenames LatestMaterializationMetadataFragment_runOrError_RunNotFoundError
         = [''RunNotFoundError'', ''PythonError'']
   \<and> fieldNames LatestMaterializationMetadataFragment_runOrError_Run = ''__typename'' # run_details
   \<and> typenames LatestMaterializationMetadataFragment_runOrError_Run = [''Run'']
   \<and> list_all
        (\<lambda>v. list_all
               (\<lambda>tag. list_all (\<lambda>f. (f \<in> set (fieldNames v)) = (tag = ''Run'')) run_details)
               (typenames v))
        (members LatestMaterializationMetadataFragment_runOrError)
   \<and> (\<forall>x :: 'n jsValue. hasType x LatestMaterializationMetadataFragment_runOrError \<longrightarrow>
         property x ''__typename'' = Some (VString ''Run'')
         \<or> property x ''__typename'' = Some (VString ''RunNotFoundError'')
         \<or> property x ''__typename'' = Some (VString ''PythonError''))
   \<and> (\<forall>x :: 'n jsValue. hasType x LatestMaterializationMetadataFragment_runOrError \<longrightarrow>
         property x ''__typename'' = Some (VString ''Run'') \<longrightarrow>
         hasType x LatestMaterializationMetadataFragment_runOrError_Run
         \<and> (\<exists>a. property x ''id'' = Some (VString a))
         \<and> (\<exists>a. property x ''runId'' = Some (VString a))
         \<and> (\<exists>a. property x ''mode'' = Some (VString a))
         \<and> (\<exists>a. property x ''pipelineName'' = Some (VString a))
         \<and> (property x ''pipelineSnapshotId'' = Some VNull
            \<or> (\<exists>a. property x ''pipelineSnapshotId'' = Some (VString a)))
         \<and> (property x ''repositoryOrigin'' = Some VNull
            \<or> (\<exists>r. property x ''repositoryOrigin'' = Some r
                  \<and> hasType r LatestMaterializationMetadataFragment_runOrError_Run_repositoryOrigin)))
   \<and> hasType (VObject [(''__typename'', VString ''PythonError'')] :: 'n jsValue)
        LatestMaterializationMetadataFragment_runOrError
   \<and> list_all
        (\<lambda>f. property (VObject [(''__typename'', VString ''PythonError'')] :: 'n jsValue) f = None)
        run_details"
proof -
  have decl:
    "members LatestMaterializationMetadataFragment_runOrError =
      [LatestMaterializationMetadataFragment_runOrError_RunNotFoundError,
       LatestMaterializationMetadataFragment_runOrError_Run]"
    "fieldNames LatestMaterializationMetadataFragment_runOrError_RunNotFoundError = [''__typename'']"
    "fieldNames LatestMaterializationMetadataFragment_runOrError_Run = ''__typename'' # run_details"
    by (simp_all add: fieldNames_def run_details_def
          LatestMaterializationMetadataFragment_runOrError_def
          LatestMaterializationMetadataFragment_runOrError_RunNotFoundError_def
          LatestMaterializationMetadataFragment_runOrError_Run_def)
  have tags:
    "typenames LatestMaterializationMetadataFragment_runOrError_RunNotFoundError
         = [''RunNotFoundError'', ''PythonError'']"
    "typenames LatestMaterializationMetadataFragment_runOrError_Run = [''Run'']"
    by (simp_all add: typenames_def fieldType_def
          LatestMaterializationMetadataFragment_runOrError_RunNotFoundError_def
          LatestMaterializationMetadataFragment_runOrError_Run_def)
  have iff: "list_all
        (\<lambda>v. list_all
               (\<lambda>tag. list_all (\<lambda>f. (f \<in> set (fieldNames v)) = (tag = ''Run'')) run_details)
               (typenames v))
        (members LatestMaterializationMetadataFragment_runOrError)"
    unfolding decl(1) by (simp add: tags decl(2,3)) (simp add: run_details_def)
  have tagged: "\<forall>x :: 'n jsValue. hasType x LatestMaterializationMetadataFragment_runOrError \<longrightarrow>
         property x ''__typename'' = Some (VString ''Run'')
         \<or> property x ''__typename'' = Some (VString ''RunNotFoundError'')
         \<or> property x ''__typename'' = Some (VString ''PythonError'')"
    using runOrError_typename by blast
  have run: "\<forall>x :: 'n jsValue. hasType x LatestMaterializationMetadataFragment_runOrError \<longrightarrow>
         property x ''__typename'' = Some (VString ''Run'') \<longrightarrow>
         hasType x LatestMaterializationMetadataFragment_runOrError_Run
         \<and> (\<exists>a. property x ''id'' = Some (VString a))
         \<and> (\<exists>a. property x ''runId'' = Some (VString a))
         \<and> (\<exists>a. property x ''mode'' = Some (VString a))
         \<and> (\<exists>a. property x ''pipelineName'' = Some (VString a))
         \<and> (property x ''pipelineSnapshotId'' = Some VNull
            \<or> (\<exists>a. property x ''pipelineSnapshotId'' = Some (VString a)))
         \<and> (property x ''repositoryOrigin'' = Some VNull
            \<or> (\<exists>r. property x ''repositoryOrigin'' = Some r
                  \<and> hasType r LatestMaterializationMetadataFragment_runOrError_Run_repositoryOrigin))"
    using runOrError_typename_Run Run_details_available by blast
  have bare: "hasType (VObject [(''__typename'', VString ''PythonError'')] :: 'n jsValue)
        LatestMaterializationMetadataFragment_runOrError"
    "list_all
        (\<lambda>f. property (VObject [(''__typename'', VString ''PythonError'')] :: 'n jsValue) f = None)
        run_details"
    by (simp_all add: property_def run_details_def
          LatestMaterializationMetadataFragment_runOrError_def
          LatestMaterializationMetadataFragment_runOrError_RunNotFoundError_def)
  from decl tags iff tagged run bare show ?thesis
    by blast
qed

text \<open>
  C10, at a value: a response object tagged \<open>Run\<close>, with no snapshot id and no repository
  origin, is a value of the union; it has the type of the \<open>Run\<close> variant and its \<open>id\<close> is
  read from it.
\<close>

theorem runOrError_details_iff_Run_witness:
  "hasType (VObject [(''__typename'', VString ''Run''),
                     (''id'', VString ''7f3a''),
                     (''runId'', VString ''7f3a''),
                     (''mode'', VString ''default''),
                     (''pipelineName'', VString ''etl''),
                     (''pipelineSnapshotId'', VNull),
                     (''repositoryOrigin'', VNull :: int jsValue)])
      LatestMaterializationMetadataFragment_runOrError
   \<and> property (VObject [(''__typename'', VString ''Run''),
                     (''id'', VString ''7f3a''),
                     (''runId'', VString ''7f3a''),
                     (''mode'', VString ''default''),
                     (''pipelineName'', VString ''etl''),
                     (''pipelineSnapshotId'', VNull),
                     (''repositoryOrigin'', VNull :: int jsValue)]) ''__typename''
        = Some (VString ''Run'')
   \<and> hasType (VObject [(''__typename'', VString ''Run''),
                     (''id'', VString ''7f3a''),
                     (''runId'', VString ''7f3a''),
                     (''mode'', VString ''default''),
                     (''pipelineName'', VString ''etl''),
                     (''pipelineSnapshotId'', VNull),
                     (''repositoryOrigin'', VNull :: int jsValue)])
      LatestMaterializationMetadataFragment_runOrError_Run
   \<and> property (VObject [(''__typename'', VString ''Run''),
                     (''id'', VString ''7f3a''),
                     (''runId'', VString ''7f3a''),
                     (''mode'', VString ''default''),
                     (''pipelineName'', VString ''etl''),
                     (''pipelineSnapshotId'', VNull),
                     (''repositoryOrigin'', VNull :: int jsValue)]) ''id''
        = Some (VString ''7f3a'')"
  using runOrError_details_iff_Run [where 'n = int]
  by (simp add: runOrError_defs property_def)

section \<open>Properties of the components\<close>

lemma tag_class_names:
  "tag_class ''Experimental'' = ''experimental-tag''"
  "tag_class ''Deprecated'' = ''deprecated-tag''"
  "tag_class ''Legacy'' = ''legacy-tag''"
  by code_simp+

text \<open>
  C8: \<open>Experimental\<close>, \<open>Deprecated\<close> and \<open>Legacy\<close> are constants. Each is an element whose
  class is its own name in lower case followed by \<open>-tag\<close>, whose only text child is its
  name, and whose other children are the two \<open>hidden\<close> spans holding the parentheses, so
  the text outside hidden elements is exactly the name. \<open>Badge\<close> appends
  \<open>getColorForString text\<close> to its fixed class list and shows \<open>text\<close>.
\<close>

theorem status_labels_and_Badge:
  "className Experimental = tag_class ''Experimental''
   \<and> className Deprecated = tag_class ''Deprecated''
   \<and> className Legacy = tag_class ''Legacy''
   \<and> [t. Text t \<leftarrow> children Experimental] = [''Experimental'']
   \<and> [t. Text t \<leftarrow> children Deprecated] = [''Deprecated'']
   \<and> [t. Text t \<leftarrow> children Legacy] = [''Legacy'']
   \<and> visibleText Experimental = ''Experimental'' \<and> textContent Experimental = ''(Experimental)''
   \<and> visibleText Deprecated = ''Deprecated'' \<and> textContent Deprecated = ''(Deprecated)''
   \<and> visibleText Legacy = ''Legacy'' \<and> textContent Legacy = ''(Legacy)''
   \<and> className (Badge getColorForString text) =
        ''inline-flex items-center px-2.5 py-0.5 rounded-md text-sm font-medium ''
          @ getColorForString text
   \<and> children (Badge getColorForString text) = [Text text]"
  by (simp add: tag_class_names Experimental_def Deprecated_def Legacy_def Badge_def)

section \<open>Properties of the colour selector\<close>

text \<open>
  C2: for a palette of \<open>N \<ge> 1\<close> entries and any digest, the index selected for a string is
  the digest modulo \<open>N\<close>, it lies below \<open>N\<close>, and \<open>selectStyle\<close> returns the palette entry at
  that index, a member of the palette.
\<close>

theorem selectStyle_member:
  assumes "palette \<noteq> []"
  shows "\<exists>i < length palette.
           selectIndex dg (length palette) s = Inr i
           \<and> i = dg s mod length palette
           \<and> selectStyle dg palette s = Inr (palette ! i)
           \<and> palette ! i \<in> set palette"
  using assms by (simp add: selectStyle_def selectIndex_def)

text \<open>
  C2, at an input: with three entries and, as the digest, the accumulation of the
  character codes with multiplier 31 from 0, \<open>Legacy\<close> selects the first entry.
\<close>

theorem selectStyle_member_witness:
  "[''yellow'', ''green'', ''blue''] \<noteq> []
   \<and> (\<exists>i < length [''yellow'', ''green'', ''blue''].
         selectIndex (foldl (\<lambda>h c. h * 31 + of_char c) 0)
             (length [''yellow'', ''green'', ''blue'']) ''Legacy'' = Inr i
         \<and> i = foldl (\<lambda>h c. h * 31 + of_char c) 0 ''Legacy''
                 mod length [''yellow'', ''green'', ''blue'']
         \<and> selectStyle (foldl (\<lambda>h c. h * 31 + of_char c) 0)
               [''yellow'', ''green'', ''blue''] ''Legacy''
             = Inr ([''yellow'', ''green'', ''blue''] ! i)
         \<and> [''yellow'', ''green'', ''blue''] ! i \<in> set [''yellow'', ''green'', ''blue''])
   \<and> selectStyle (foldl (\<lambda>h c. h * 31 + of_char c) 0)
         [''yellow'', ''green'', ''blue''] ''Legacy'' = Inr ''yellow''"
  using selectStyle_member [of "[''yellow'', ''green'', ''blue'']"
      "foldl (\<lambda>h c. h * 31 + of_char c) 0" "''Legacy''"]
  by (simp add: selectStyle_def selectIndex_def)

end
